theory Spec2Isabelle
  imports Complex_Main
begin

section \<open>JavaScript values\<close>

text \<open>
  The client (\<^verbatim>\<open>index.js\<close>) and the escaper (\<^verbatim>\<open>pg-escape.ts\<close>) inspect their
  arguments dynamically (\<^verbatim>\<open>typeof\<close>, \<^verbatim>\<open>Array.isArray\<close>, \<^verbatim>\<open>Buffer.isBuffer\<close>,
  truthiness), so arguments are values of one universal type.

  A Number is an IEEE double: a finite one is given by its exact (rational) value, the
  three others are constructors. Minus zero is not told apart from zero (the source never
  does: \<^verbatim>\<open>-0 === 0\<close>, both are falsy, both print as 0).
  An object is the list of its own enumerable properties, in the order of
  \<^verbatim>\<open>Object.keys\<close>; a well-formed object has distinct keys. A function is opaque.
\<close>

datatype jsnum = NaN | PosInf | NegInf | Fin rat

datatype jsval =
    JUndefined
  | JNull
  | JBool bool
  | JNum jsnum
  | JStr string
  | JBuffer "nat list"
  | JFunction
  | JArr "jsval list"
  | JObj "(string \<times> jsval) list"

text \<open>
  \<^verbatim>\<open>throw Error(msg)\<close> of the source's \<^verbatim>\<open>error\<close> helper is \<open>Error msg\<close>; a
  \<open>TypeError\<close> is what the runtime throws by itself (a property read on
  \<^verbatim>\<open>undefined\<close> or \<^verbatim>\<open>null\<close>, a call of something that is not a function).
\<close>

datatype error = Error string | TypeError

abbreviation sq :: string where
  "sq \<equiv> [CHR 0x27]"

fun thenE :: "error + 'a \<Rightarrow> ('a \<Rightarrow> error + 'b) \<Rightarrow> error + 'b" where
  "thenE (Inl e) f = Inl e"
| "thenE (Inr x) f = f x"

datatype jstype = TUndefined | TObject | TBoolean | TNumber | TString | TFunction

fun typeof :: "jsval \<Rightarrow> jstype" where
  "typeof JUndefined = TUndefined"
| "typeof JNull = TObject"
| "typeof (JBool b) = TBoolean"
| "typeof (JNum n) = TNumber"
| "typeof (JStr s) = TString"
| "typeof (JBuffer bs) = TObject"
| "typeof JFunction = TFunction"
| "typeof (JArr xs) = TObject"
| "typeof (JObj kvs) = TObject"

fun truthy :: "jsval \<Rightarrow> bool" where
  "truthy JUndefined = False"
| "truthy JNull = False"
| "truthy (JBool b) = b"
| "truthy (JNum n) = (n \<noteq> NaN \<and> n \<noteq> Fin 0)"
| "truthy (JStr s) = (s \<noteq> [])"
| "truthy v = True"

fun isArray :: "jsval \<Rightarrow> bool" where
  "isArray (JArr xs) = True"
| "isArray v = False"

text \<open>
  \<open>get v k\<close> is the property read \<^verbatim>\<open>v.k\<close> for the property names the source reads
  (\<^verbatim>\<open>sql\<close>, \<^verbatim>\<open>parameters\<close>, \<^verbatim>\<open>database\<close>, \<^verbatim>\<open>hydrateColumnNames\<close>,
  \<^verbatim>\<open>includeResultMetadata\<close>, \<^verbatim>\<open>options\<close>, \<^verbatim>\<open>secretArn\<close>, \<^verbatim>\<open>resourceArn\<close>,
  \<^verbatim>\<open>name\<close>, \<^verbatim>\<open>value\<close>): it throws on \<^verbatim>\<open>undefined\<close> and \<^verbatim>\<open>null\<close>, looks an
  object's own property up, and is \<^verbatim>\<open>undefined\<close> on every other value.
\<close>

fun get :: "jsval \<Rightarrow> string \<Rightarrow> error + jsval" where
  "get JUndefined k = Inl TypeError"
| "get JNull k = Inl TypeError"
| "get (JObj kvs) k = Inr (case map_of kvs k of None \<Rightarrow> JUndefined | Some v \<Rightarrow> v)"
| "get v k = Inr JUndefined"

section \<open>The client: construction\<close>

text \<open>
  The configuration built by \<^verbatim>\<open>module.exports\<close>. Its \<^verbatim>\<open>RDS\<close> handle is the remote
  execution surface, an external collaborator: the operations below take it as an
  argument. \<open>database\<close> is \<open>None\<close> for \<^verbatim>\<open>null\<close>.
\<close>

record config =
  secretArn :: string
  resourceArn :: string
  database :: "string option"
  hydrateColumnNames :: bool

definition module_exports :: "jsval \<Rightarrow> error + config" where
  "module_exports params =
     thenE (get params ''options'') (\<lambda>opts.
     thenE (if typeof opts = TObject then Inr opts
            else if opts \<noteq> JUndefined then Inl (Error (sq @ ''options'' @ sq @ '' must be an object''))
            else Inr (JObj [])) (\<lambda>options.
     thenE (get params ''secretArn'') (\<lambda>sa.
     thenE (case sa of JStr s \<Rightarrow> Inr s
            | _ \<Rightarrow> Inl (Error (sq @ ''secretArn'' @ sq @ '' string value required''))) (\<lambda>secretArn'.
     thenE (get params ''resourceArn'') (\<lambda>ra.
     thenE (case ra of JStr s \<Rightarrow> Inr s
            | _ \<Rightarrow> Inl (Error (sq @ ''resourceArn'' @ sq @ '' string value required''))) (\<lambda>resourceArn'.
     thenE (get params ''database'') (\<lambda>db.
     thenE (case db of JStr s \<Rightarrow> Inr (Some s)
            | JUndefined \<Rightarrow> Inr None
            | _ \<Rightarrow> Inl (Error (sq @ ''database'' @ sq @ '' must be a string''))) (\<lambda>database'.
     thenE (get params ''hydrateColumnNames'') (\<lambda>h.
       Inr \<lparr> secretArn = secretArn', resourceArn = resourceArn', database = database',
             hydrateColumnNames = (if typeof h = TBoolean then False else True) \<rparr>)))))))))"

section \<open>Objects and arrays\<close>

text \<open>
  \<open>assign target src\<close> is \<^verbatim>\<open>Object.assign(target, src)\<close> on property lists: each
  property of the source is written to the target in turn, replacing the value of a key
  the target already has and appending a new key. The list keeps the order in which the
  keys were first written (\<^verbatim>\<open>Object.keys\<close> would list keys that are array indices
  before the others), and every key is taken to name an ordinary own property (not
  \<^verbatim>\<open>__proto__\<close>, whose assignment sets the prototype); what is proved below reads
  a payload by its keys, never by their order.
\<close>

fun obj_set :: "(string \<times> jsval) list \<Rightarrow> string \<Rightarrow> jsval \<Rightarrow> (string \<times> jsval) list" where
  "obj_set [] k v = [(k, v)]"
| "obj_set ((k', v') # kvs) k v =
     (if k' = k then (k, v) # kvs else (k', v') # obj_set kvs k v)"

fun assign :: "(string \<times> jsval) list \<Rightarrow> (string \<times> jsval) list \<Rightarrow> (string \<times> jsval) list" where
  "assign target [] = target"
| "assign target ((k, v) # src) = assign (obj_set target k v) src"

text \<open>Decimal digits of an index, as \<^verbatim>\<open>Object.keys\<close> names the elements of an array.\<close>

fun show_nat :: "nat \<Rightarrow> string" where
  "show_nat n =
     (if n < 10 then [char_of (48 + n)] else show_nat (n div 10) @ [char_of (48 + n mod 10)])"

declare show_nat.simps [simp del]

definition indexed :: "jsval list \<Rightarrow> (string \<times> jsval) list" where
  "indexed xs = zip (map show_nat [0..<length xs]) xs"

text \<open>
  \<open>own_entries v\<close> pairs \<^verbatim>\<open>Object.keys(v)\<close> with the values \<^verbatim>\<open>v[k]\<close>:
  \<^verbatim>\<open>Object.keys\<close> throws on \<^verbatim>\<open>undefined\<close> and \<^verbatim>\<open>null\<close>, lists the indices of an
  array, of a string (its characters) and of a Buffer (its bytes), and nothing for a
  number, a boolean or a function.
\<close>

fun own_entries :: "jsval \<Rightarrow> error + (string \<times> jsval) list" where
  "own_entries JUndefined = Inl TypeError"
| "own_entries JNull = Inl TypeError"
| "own_entries (JObj kvs) = Inr kvs"
| "own_entries (JArr xs) = Inr (indexed xs)"
| "own_entries (JStr s) = Inr (indexed (map (\<lambda>c. JStr [c]) s))"
| "own_entries (JBuffer bs) = Inr (indexed (map (\<lambda>b. JNum (Fin (of_nat b))) bs))"
| "own_entries v = Inr []"

text \<open>\<^verbatim>\<open>xs.reduce(f, acc)\<close> with a callback that may throw.\<close>

fun reduceE :: "('b \<Rightarrow> 'a \<Rightarrow> error + 'b) \<Rightarrow> 'a list \<Rightarrow> 'b \<Rightarrow> error + 'b" where
  "reduceE f [] acc = Inr acc"
| "reduceE f (x # xs) acc = thenE (f acc x) (reduceE f xs)"

lemma reduceE_cong [fundef_cong]:
  "xs = ys \<Longrightarrow> a = b \<Longrightarrow> (\<And>acc x. x \<in> set ys \<Longrightarrow> f acc x = g acc x)
     \<Longrightarrow> reduceE f xs a = reduceE g ys b"
proof (induction ys arbitrary: xs a b)
  case Nil
  then show ?case by simp
next
  case (Cons y ys)
  have step: "f b y = g b y" using Cons.prems(3) by simp
  have rest: "\<And>c. reduceE f ys c = reduceE g ys c"
    using Cons.IH [OF refl refl] Cons.prems(3) by simp
  show ?case using Cons.prems(1,2) step rest
    by (cases "g b y") simp_all
qed

section \<open>The client: parsing the arguments of a query\<close>

text \<open>\<^verbatim>\<open>args[i]\<close> of the rest arguments: \<^verbatim>\<open>undefined\<close> beyond the last one.\<close>

definition arg :: "jsval list \<Rightarrow> nat \<Rightarrow> jsval" where
  "arg args i = (if i < length args then args ! i else JUndefined)"

definition parseSQL :: "jsval list \<Rightarrow> error + string" where
  "parseSQL args =
     (case arg args 0 of
        JStr s \<Rightarrow> Inr s
      | a \<Rightarrow>
          if typeof a = TObject then
            thenE (get a ''sql'') (\<lambda>q.
              case q of JStr s \<Rightarrow> Inr s
              | _ \<Rightarrow> Inl (Error (''No '' @ sq @ ''sql'' @ sq @ '' statement provided.'')))
          else Inl (Error (''No '' @ sq @ ''sql'' @ sq @ '' statement provided.'')))"

definition parseParams :: "jsval list \<Rightarrow> error + jsval list" where
  "parseParams args =
     thenE (get (arg args 0) ''parameters'') (\<lambda>p.
       case p of
         JArr xs \<Rightarrow> Inr xs
       | _ \<Rightarrow>
           if typeof p = TObject then Inr [p]
           else (case arg args 1 of
               JArr ys \<Rightarrow> Inr ys
             | a1 \<Rightarrow>
                 if typeof a1 = TObject then Inr [a1]
                 else if truthy p then
                   Inl (Error (sq @ ''parameters'' @ sq @ '' must be an object or array''))
                 else if truthy a1 then Inl (Error ''Parameters must be an object or array'')
                 else Inr []))"

definition parseDatabase :: "config \<Rightarrow> jsval list \<Rightarrow> error + string" where
  "parseDatabase cfg args =
     thenE (get (arg args 0) ''database'') (\<lambda>d.
       case d of
         JStr s \<Rightarrow> Inr s
       | _ \<Rightarrow>
           if truthy d then Inl (Error (sq @ ''database'' @ sq @ '' must be a string.''))
           else (case database cfg of
               Some s \<Rightarrow>
                 if s \<noteq> [] then Inr s
                 else Inl (Error (''No '' @ sq @ ''database'' @ sq @ '' provided.''))
             | None \<Rightarrow> Inl (Error (''No '' @ sq @ ''database'' @ sq @ '' provided.''))))"

definition parseHydrate :: "config \<Rightarrow> jsval list \<Rightarrow> error + bool" where
  "parseHydrate cfg args =
     thenE (get (arg args 0) ''hydrateColumnNames'') (\<lambda>h.
       case h of
         JBool b \<Rightarrow> Inr b
       | _ \<Rightarrow>
           if truthy h then
             Inl (Error (sq @ ''hydrateColumnNames'' @ sq @ '' must be a boolean.''))
           else Inr (hydrateColumnNames cfg))"

definition omit :: "jsval \<Rightarrow> string list \<Rightarrow> error + (string \<times> jsval) list" where
  "omit obj values =
     thenE (own_entries obj) (\<lambda>es.
       reduceE (\<lambda>acc (x, v). if x \<in> set values then Inr acc else Inr (obj_set acc x v)) es [])"

definition prepareParams :: "config \<Rightarrow> jsval list \<Rightarrow> error + (string \<times> jsval) list" where
  "prepareParams cfg args =
     thenE (if typeof (arg args 0) = TObject then omit (arg args 0) [''hydrateColumnNames'']
            else Inr []) (\<lambda>inputs.
       Inr (assign [(''secretArn'', JStr (secretArn cfg)),
                    (''resourceArn'', JStr (resourceArn cfg))] inputs))"

section \<open>The client: annotating parameters\<close>

text \<open>
  The two number tests of \<^verbatim>\<open>getType\<close>, on a Number \<open>n\<close>.

  \<^verbatim>\<open>parseInt(n) === n\<close>: \<^verbatim>\<open>parseInt\<close> reads the integer at the head of
  \<^verbatim>\<open>String(n)\<close>. A finite Number of magnitude below \<open>10^21\<close> prints in positional
  notation (or, when tiny, with a negative exponent), so an integer gives itself back
  and a fraction gives something else; from \<open>10^21\<close> on it prints as
  \<^verbatim>\<open>d.ddde+XX\<close> and \<^verbatim>\<open>parseInt\<close> gives the digits before the point: never the
  number. \<^verbatim>\<open>NaN\<close> and the infinities give \<^verbatim>\<open>NaN\<close>, which equals nothing.

  \<^verbatim>\<open>parseFloat(n) === n\<close>: \<^verbatim>\<open>String\<close> of a Number reads back as that Number, so
  the test fails on \<^verbatim>\<open>NaN\<close> alone.
\<close>

fun parseInt_same :: "jsnum \<Rightarrow> bool" where
  "parseInt_same (Fin q) = (of_int \<lfloor>q\<rfloor> = q \<and> \<bar>q\<bar> < 10 ^ 21)"
| "parseInt_same n = False"

fun parseFloat_same :: "jsnum \<Rightarrow> bool" where
  "parseFloat_same NaN = False"
| "parseFloat_same n = True"

fun getType :: "jsval \<Rightarrow> string option" where
  "getType (JStr s) = Some ''stringValue''"
| "getType (JBool b) = Some ''booleanValue''"
| "getType (JNum n) =
     (if parseInt_same n then Some ''longValue''
      else if parseFloat_same n then Some ''doubleValue''
      else None)"
| "getType JNull = Some ''isNull''"
| "getType (JBuffer bs) = Some ''blobValue''"
| "getType v = None"

definition formatType :: "string \<Rightarrow> jsval \<Rightarrow> string option \<Rightarrow> error + jsval" where
  "formatType name' value type =
     (case type of
        None \<Rightarrow> Inl (Error (sq @ name' @ sq @ sq @ '' is an invalid type''))
      | Some t \<Rightarrow> Inr (JObj [(''name'', JStr name'), (''value'', JObj [(t, value)])]))"

definition formatParams :: "jsval \<Rightarrow> error + jsval list" where
  "formatParams p =
     thenE (own_entries p) (\<lambda>es.
       reduceE (\<lambda>arr (x, v). thenE (formatType x v (getType v)) (\<lambda>np. Inr (arr @ [np]))) es [])"

text \<open>
  \<open>member_of p k\<close> is \<^verbatim>\<open>p.k\<close> where \<open>p\<close> is known not to be \<^verbatim>\<open>undefined\<close> or
  \<^verbatim>\<open>null\<close> (\<^verbatim>\<open>Object.keys(p)\<close> has been evaluated before).
\<close>

definition member_of :: "jsval \<Rightarrow> string \<Rightarrow> jsval" where
  "member_of p k = (case get p k of Inr v \<Rightarrow> v | Inl e \<Rightarrow> JUndefined)"

fun annotateParams :: "jsval list \<Rightarrow> error + jsval list" where
  "annotateParams params =
     reduceE (\<lambda>acc p.
         case p of
           JArr ps \<Rightarrow> thenE (annotateParams ps) (\<lambda>r. Inr (acc @ [JArr r]))
         | _ \<Rightarrow>
             thenE (own_entries p) (\<lambda>es.
               if length es = 2 \<and> truthy (member_of p ''name'') \<and> truthy (member_of p ''value'')
               then Inr (acc @ [p])
               else thenE (formatParams p) (\<lambda>nps. Inr (acc @ nps))))
       params []"

declare annotateParams.simps [simp del]

section \<open>The client: assembling the request\<close>

datatype rds_method = ExecuteStatement | BatchExecuteStatement

text \<open>
  What \<^verbatim>\<open>query\<close> has computed when it reaches the remote call: the batch flag, the
  payload \<^verbatim>\<open>params\<close> and the resolved hydration flag.
\<close>

record request =
  isBatch :: bool
  params :: "(string \<times> jsval) list"
  hydrate :: bool

definition query_request :: "config \<Rightarrow> jsval list \<Rightarrow> error + request" where
  "query_request cfg args =
     thenE (parseSQL args) (\<lambda>sql.
     thenE (parseHydrate cfg args) (\<lambda>hydrateColumnNames'.
     thenE (thenE (parseParams args) annotateParams) (\<lambda>parameters.
     let isBatch' = (case parameters of [] \<Rightarrow> False | p # ps \<Rightarrow> isArray p) in
     thenE (prepareParams cfg args) (\<lambda>prepared.
     thenE (parseDatabase cfg args) (\<lambda>db.
       Inr \<lparr> isBatch = isBatch',
             params =
               assign
                 (assign
                    (assign prepared [(''database'', JStr db), (''sql'', JStr sql)])
                    (if parameters \<noteq> [] then
                       [(if isBatch' then ''parameterSets'' else ''parameters'', JArr parameters)]
                     else []))
                 (if hydrateColumnNames' \<and> \<not> isBatch' then
                    [(''includeResultMetadata'', JBool True)]
                  else []),
             hydrate = hydrateColumnNames' \<rparr>)))))"

section \<open>The client: hydrating results\<close>

text \<open>
  The response of the remote call, in the shape the Data API gives it: the column
  metadata (absent: \<open>None\<close>) is a list of columns with a string label, the records
  (absent: \<open>None\<close>) are rows of fields, and a field is an object such as
  \<^verbatim>\<open>{stringValue: "x"}\<close> or \<^verbatim>\<open>{isNull: true}\<close>.
\<close>

record column =
  label :: string

type_synonym field = "(string \<times> jsval) list"

record response =
  columnMetadata :: "column list option"
  numberOfRecordsUpdated :: jsval
  records :: "field list list option"

text \<open>
  The value \<^verbatim>\<open>formatResults\<close> returns: \<open>out_columnMetadata\<close> is \<open>None\<close> when the
  key is not set, and \<open>Some m\<close> when it is set to the response's metadata \<open>m\<close>.
\<close>

record results =
  out_columnMetadata :: "column list option option"
  out_numberOfRecordsUpdated :: jsval
  out_records :: "jsval list"

text \<open>An entry of \<^verbatim>\<open>fmap\<close>: \<^verbatim>\<open>{label?, field?}\<close>.\<close>

record fmap_entry =
  fmap_label :: "string option"
  fmap_field :: "string option"

fun mapE :: "('a \<Rightarrow> error + 'b) \<Rightarrow> 'a list \<Rightarrow> error + 'b list" where
  "mapE f [] = Inr []"
| "mapE f (x # xs) = thenE (f x) (\<lambda>y. thenE (mapE f xs) (\<lambda>ys. Inr (y # ys)))"

text \<open>
  The callback of \<^verbatim>\<open>recs[0].map\<close>: \<^verbatim>\<open>columns[i].label\<close> throws when the metadata has
  no column \<open>i\<close>. \<open>columns\<close> is \<open>None\<close> when the second argument of
  \<^verbatim>\<open>formatRecords\<close> is falsy (\<^verbatim>\<open>false\<close>, or metadata that is absent).
\<close>

definition fmap_seed :: "column list option \<Rightarrow> nat \<Rightarrow> error + fmap_entry" where
  "fmap_seed columns i =
     (case columns of
        None \<Rightarrow> Inr \<lparr> fmap_label = None, fmap_field = None \<rparr>
      | Some cols \<Rightarrow>
          if i < length cols then Inr \<lparr> fmap_label = Some (label (cols ! i)), fmap_field = None \<rparr>
          else Inl TypeError)"

text \<open>A property name made from \<^verbatim>\<open>fmap[i].label\<close> or \<^verbatim>\<open>fmap[i].field\<close>.\<close>

definition key_of :: "string option \<Rightarrow> string" where
  "key_of k = (case k of None \<Rightarrow> ''undefined'' | Some s \<Rightarrow> s)"

definition lookup :: "field \<Rightarrow> string \<Rightarrow> jsval" where
  "lookup fld k = (case map_of fld k of None \<Rightarrow> JUndefined | Some v \<Rightarrow> v)"

text \<open>
  The two ways a value joins the accumulator of a row: \<^verbatim>\<open>Object.assign(acc, {[k]: v})\<close>
  on the object of a hydrated row, \<^verbatim>\<open>acc.concat(v)\<close> on the array of a plain one
  (\<^verbatim>\<open>concat\<close> spreads an array argument).
\<close>

fun acc_assign :: "jsval \<Rightarrow> string \<Rightarrow> jsval \<Rightarrow> jsval" where
  "acc_assign (JObj kvs) k v = JObj (obj_set kvs k v)"
| "acc_assign acc k v = acc"

fun acc_concat :: "jsval \<Rightarrow> jsval \<Rightarrow> jsval" where
  "acc_concat (JArr xs) (JArr ys) = JArr (xs @ ys)"
| "acc_concat (JArr xs) v = JArr (xs @ [v])"
| "acc_concat acc v = acc"

definition emit :: "column list option \<Rightarrow> fmap_entry \<Rightarrow> jsval \<Rightarrow> jsval \<Rightarrow> jsval" where
  "emit columns e acc v =
     (case columns of
        Some cols \<Rightarrow> acc_assign acc (key_of (fmap_label e)) v
      | None \<Rightarrow> acc_concat acc v)"

text \<open>
  The callback of \<^verbatim>\<open>rec.reduce\<close>, with the field map threaded through: the third
  branch writes \<^verbatim>\<open>fmap[i].field\<close> once for every key of the field that is not
  \<^verbatim>\<open>isNull\<close> and whose value is not \<^verbatim>\<open>null\<close>. Reading or writing a property of
  \<^verbatim>\<open>fmap[i]\<close> throws when the map has no entry \<open>i\<close>.
\<close>

definition hydrate_field ::
  "column list option \<Rightarrow> fmap_entry list \<times> jsval \<Rightarrow> nat \<times> field
     \<Rightarrow> error + fmap_entry list \<times> jsval" where
  "hydrate_field columns st x =
     (case st of (fmap, acc) \<Rightarrow> case x of (i, fld) \<Rightarrow>
        if lookup fld ''isNull'' = JBool True then
          (case columns of
             Some cols \<Rightarrow>
               if i < length fmap then Inr (fmap, emit columns (fmap ! i) acc JNull)
               else Inl TypeError
           | None \<Rightarrow> Inr (fmap, acc_concat acc JNull))
        else if i < length fmap \<and> fmap_field (fmap ! i) \<noteq> None
                \<and> key_of (fmap_field (fmap ! i)) \<noteq> [] then
          Inr (fmap, emit columns (fmap ! i) acc (lookup fld (key_of (fmap_field (fmap ! i)))))
        else if i < length fmap then
          (let fmap' = fold (\<lambda>type fm.
                   if type \<noteq> ''isNull'' \<and> lookup fld type \<noteq> JNull
                   then fm[i := (fm ! i)\<lparr> fmap_field := Some type \<rparr>] else fm)
                 (map fst fld) fmap
           in Inr (fmap', emit columns (fmap' ! i) acc
                            (lookup fld (key_of (fmap_field (fmap' ! i))))))
        else Inl TypeError)"

fun hydrate_rows ::
  "column list option \<Rightarrow> fmap_entry list \<Rightarrow> field list list \<Rightarrow> error + jsval list" where
  "hydrate_rows columns fmap [] = Inr []"
| "hydrate_rows columns fmap (rec # recs) =
     thenE (reduceE (hydrate_field columns) (enumerate 0 rec)
              (fmap, case columns of Some cols \<Rightarrow> JObj [] | None \<Rightarrow> JArr []))
       (\<lambda>st. thenE (hydrate_rows columns (fst st) recs) (\<lambda>rows. Inr (snd st # rows)))"

definition formatRecords :: "field list list \<Rightarrow> column list option \<Rightarrow> error + jsval list" where
  "formatRecords recs columns =
     (case recs of
        [] \<Rightarrow> Inl TypeError
      | rec0 # rest \<Rightarrow>
          thenE (mapE (fmap_seed columns) [0..<length rec0]) (\<lambda>fmap.
            hydrate_rows columns fmap recs))"

definition formatResults :: "response \<Rightarrow> bool \<Rightarrow> bool \<Rightarrow> error + results" where
  "formatResults resp hydrate' includeMeta =
     thenE (case records resp of
              None \<Rightarrow> Inl TypeError
            | Some recs \<Rightarrow> formatRecords recs (if hydrate' then columnMetadata resp else None))
       (\<lambda>rs. Inr \<lparr> out_columnMetadata = (if includeMeta then Some (columnMetadata resp) else None),
                   out_numberOfRecordsUpdated = numberOfRecordsUpdated resp,
                   out_records = rs \<rparr>)"

text \<open>
  \<^verbatim>\<open>query\<close>: the remote execution surface \<open>rds\<close> is given the method and the payload,
  and answers with a response or fails.
\<close>

definition query ::
  "config \<Rightarrow> (rds_method \<Rightarrow> (string \<times> jsval) list \<Rightarrow> error + response) \<Rightarrow> jsval list
     \<Rightarrow> error + results" where
  "query cfg rds args =
     thenE (query_request cfg args) (\<lambda>req.
     thenE (rds (if isBatch req then BatchExecuteStatement else ExecuteStatement) (params req))
       (\<lambda>resp.
     thenE (get (arg args 0) ''includeResultMetadata'') (\<lambda>m.
       formatResults resp (hydrate req) (m = JBool True))))"

section \<open>The escaper\<close>

















section \<open>Notions of the specification\<close>

text \<open>The Named Parameter \<^verbatim>\<open>{name: k, value: {[tag]: v}}\<close> of a key and its typed value.\<close>

definition named_parameter :: "string \<times> jsval \<Rightarrow> jsval" where
  "named_parameter kv =
     JObj [(''name'', JStr (fst kv)), (''value'', JObj [(the (getType (snd kv)), snd kv)])]"





text \<open>The callback of the \<^verbatim>\<open>reduce\<close> in \<^verbatim>\<open>annotateParams\<close>, by itself.\<close>

definition annotate_step :: "jsval list \<Rightarrow> jsval \<Rightarrow> error + jsval list" where
  "annotate_step acc p =
     (case p of
        JArr ps \<Rightarrow> thenE (annotateParams ps) (\<lambda>r. Inr (acc @ [JArr r]))
      | _ \<Rightarrow>
          thenE (own_entries p) (\<lambda>es.
            if length es = 2 \<and> truthy (member_of p ''name'') \<and> truthy (member_of p ''value'')
            then Inr (acc @ [p])
            else thenE (formatParams p) (\<lambda>nps. Inr (acc @ nps))))"

section \<open>Facts about the model\<close>

lemma map_of_obj_set: "map_of (obj_set kvs k v) = (map_of kvs)(k \<mapsto> v)"
  by (induction kvs k v rule: obj_set.induct) auto

lemma map_of_assign:
  "map_of (assign t src) k = (case map_of (rev src) k of None \<Rightarrow> map_of t k | Some v \<Rightarrow> Some v)"
proof (induction src arbitrary: t)
  case Nil
  then show ?case by simp
next
  case (Cons x src)
  obtain a b where x: "x = (a, b)" by (cases x)
  show ?case
    by (simp add: x Cons.IH map_of_obj_set map_add_def split: option.splits)
qed

lemma map_of_rev_distinct: "distinct (map fst xs) \<Longrightarrow> map_of (rev xs) k = map_of xs k"
proof (induction xs)
  case Nil
  then show ?case by simp
next
  case (Cons x xs)
  obtain a b where x: "x = (a, b)" by (cases x)
  have notin: "map_of (rev xs) a = None"
    using Cons.prems by (simp add: x map_of_eq_None_iff)
  show ?case using Cons notin
    by (auto simp: x map_add_def split: option.splits)
qed

lemma omit_fold:
  "\<exists>r. reduceE (\<lambda>acc (x, v). if x \<in> set values then Inr acc else Inr (obj_set acc x v)) es acc0
        = Inr r
     \<and> (\<forall>k. map_of r k =
           (case map_of (rev es) k of
              None \<Rightarrow> map_of acc0 k
            | Some v \<Rightarrow> if k \<in> set values then map_of acc0 k else Some v))"
proof (induction es arbitrary: acc0)
  case Nil
  then show ?case by simp
next
  case (Cons e es)
  obtain a b where e: "e = (a, b)" by (cases e)
  show ?case
  proof (cases "a \<in> set values")
    case True
    obtain r where r: "reduceE (\<lambda>acc (x, v). if x \<in> set values then Inr acc else Inr (obj_set acc x v)) es acc0 = Inr r"
      and m: "\<forall>k. map_of r k = (case map_of (rev es) k of None \<Rightarrow> map_of acc0 k
            | Some v \<Rightarrow> if k \<in> set values then map_of acc0 k else Some v)"
      using Cons.IH [of acc0] by blast
    show ?thesis using True r m
      by (auto simp: e map_add_def split: option.splits)
  next
    case False
    obtain r where r: "reduceE (\<lambda>acc (x, v). if x \<in> set values then Inr acc else Inr (obj_set acc x v)) es (obj_set acc0 a b) = Inr r"
      and m: "\<forall>k. map_of r k = (case map_of (rev es) k of None \<Rightarrow> map_of (obj_set acc0 a b) k
            | Some v \<Rightarrow> if k \<in> set values then map_of (obj_set acc0 a b) k else Some v)"
      using Cons.IH [of "obj_set acc0 a b"] by blast
    show ?thesis using False r m
      by (auto simp: e map_add_def map_of_obj_set split: option.splits)
  qed
qed

lemma omit_object:
  assumes "distinct (map fst kvs)"
  shows "\<exists>r. omit (JObj kvs) values = Inr r
     \<and> (\<forall>k. map_of r k = (if k \<in> set values then None else map_of kvs k))"
proof -
  obtain r where r: "reduceE (\<lambda>acc (x, v). if x \<in> set values then Inr acc else Inr (obj_set acc x v)) kvs [] = Inr r"
      and m: "\<forall>k. map_of r k = (case map_of (rev kvs) k of None \<Rightarrow> map_of [] k
            | Some v \<Rightarrow> if k \<in> set values then map_of [] k else Some v)"
    using omit_fold [of "values" kvs "[]"] by blast
  have "\<forall>k. map_of r k = (if k \<in> set values then None else map_of kvs k)"
    using m by (auto simp: map_of_rev_distinct [OF assms] split: option.splits)
  then show ?thesis using r by (simp add: omit_def)
qed

lemma keys_obj_set: "fst ` set (obj_set kvs k v) = insert k (fst ` set kvs)"
  by (induction kvs k v rule: obj_set.induct) auto

lemma distinct_obj_set: "distinct (map fst kvs) \<Longrightarrow> distinct (map fst (obj_set kvs k v))"
proof (induction kvs k v rule: obj_set.induct)
  case (1 k v)
  then show ?case by simp
next
  case (2 k' v' kvs k v)
  then show ?case
    using keys_obj_set [of kvs k v] by (auto simp: image_iff)
qed

lemma omit_fold_distinct:
  "distinct (map fst acc0) \<Longrightarrow>
     reduceE (\<lambda>acc (x, v). if x \<in> set values then Inr acc else Inr (obj_set acc x v)) es acc0
       = Inr r \<Longrightarrow> distinct (map fst r)"
proof (induction es arbitrary: acc0)
  case Nil
  then show ?case by simp
next
  case (Cons e es)
  obtain a b where e: "e = (a, b)" by (cases e)
  show ?case
  proof (cases "a \<in> set values")
    case True
    then show ?thesis using Cons.IH [of acc0] Cons.prems by (simp add: e)
  next
    case False
    then show ?thesis
      using Cons.IH [of "obj_set acc0 a b"] Cons.prems distinct_obj_set [of acc0 a b]
      by (simp add: e)
  qed
qed

lemma query_request_stages:
  assumes "query_request cfg args = Inr req"
  obtains sql h parameters prepared db where
    "parseSQL args = Inr sql" and "parseHydrate cfg args = Inr h"
    and "thenE (parseParams args) annotateParams = Inr parameters"
    and "prepareParams cfg args = Inr prepared" and "parseDatabase cfg args = Inr db"
    and "isBatch req = (case parameters of [] \<Rightarrow> False | p # ps \<Rightarrow> isArray p)"
    and "hydrate req = h"
    and "params req =
        assign
          (assign
             (assign prepared [(''database'', JStr db), (''sql'', JStr sql)])
             (if parameters \<noteq> [] then
                [(if isBatch req then ''parameterSets'' else ''parameters'', JArr parameters)]
              else []))
          (if h \<and> \<not> isBatch req then [(''includeResultMetadata'', JBool True)] else [])"
proof -
  obtain sql where s: "parseSQL args = Inr sql"
    using assms by (cases "parseSQL args") (simp_all add: query_request_def)
  obtain h where h: "parseHydrate cfg args = Inr h"
    using assms s by (cases "parseHydrate cfg args") (simp_all add: query_request_def)
  obtain ps where p: "thenE (parseParams args) annotateParams = Inr ps"
    using assms s h
    by (cases "thenE (parseParams args) annotateParams") (simp_all add: query_request_def)
  obtain prepared where pr: "prepareParams cfg args = Inr prepared"
    using assms s h p
    by (cases "prepareParams cfg args") (simp_all add: query_request_def Let_def)
  obtain db where d: "parseDatabase cfg args = Inr db"
    using assms s h p pr
    by (cases "parseDatabase cfg args") (simp_all add: query_request_def Let_def)
  have req: "req =
      \<lparr> isBatch = (case ps of [] \<Rightarrow> False | p # ps \<Rightarrow> isArray p),
        params =
          assign
            (assign
               (assign prepared [(''database'', JStr db), (''sql'', JStr sql)])
               (if ps \<noteq> [] then
                  [(if (case ps of [] \<Rightarrow> False | p # ps \<Rightarrow> isArray p)
                    then ''parameterSets'' else ''parameters'', JArr ps)]
                else []))
            (if h \<and> \<not> (case ps of [] \<Rightarrow> False | p # ps \<Rightarrow> isArray p)
             then [(''includeResultMetadata'', JBool True)] else []),
        hydrate = h \<rparr>"
    using assms s h p pr d by (simp add: query_request_def Let_def)
  show thesis
    by (rule that [OF s h p pr d]) (simp_all only: req request.simps)
qed

lemma prepared_plain_sql:
  "arg args 0 = JStr s \<Longrightarrow> prepareParams cfg args = Inr prepared
     \<Longrightarrow> map_of prepared ''includeResultMetadata'' = None"
  by (auto simp: prepareParams_def)

lemma prepared_object:
  assumes "arg args 0 = JObj kvs" and "distinct (map fst kvs)"
    and "prepareParams cfg args = Inr prepared"
  shows "map_of prepared ''includeResultMetadata'' = map_of kvs ''includeResultMetadata''"
proof -
  obtain r where r: "omit (JObj kvs) [''hydrateColumnNames''] = Inr r"
    and m: "\<forall>k. map_of r k = (if k \<in> set [''hydrateColumnNames''] then None else map_of kvs k)"
    using omit_object [OF assms(2), of "[''hydrateColumnNames'']"] by blast
  have rk: "map_of r ''includeResultMetadata'' = map_of kvs ''includeResultMetadata''"
    using m by simp
  have dr: "distinct (map fst r)"
    using r omit_fold_distinct [of "[]" "[''hydrateColumnNames'']" kvs r]
    by (simp add: omit_def)
  have p: "prepared = assign [(''secretArn'', JStr (secretArn cfg)),
                    (''resourceArn'', JStr (resourceArn cfg))] r"
    using assms(1,3) r by (simp add: prepareParams_def)
  show ?thesis
    by (simp add: p map_of_assign map_of_rev_distinct [OF dr] rk split: option.splits)
qed

lemma thenE_Inr_id: "thenE x Inr = x"
  by (cases x) simp_all

lemma formatParams_reduce_mapE:
  "reduceE (\<lambda>arr (x, v). thenE (formatType x v (getType v)) (\<lambda>np. Inr (arr @ [np]))) es arr
   = thenE (mapE (\<lambda>(x, v). formatType x v (getType v)) es) (\<lambda>nps. Inr (arr @ nps))"
proof (induction es arbitrary: arr)
  case Nil
  then show ?case by simp
next
  case (Cons e es)
  obtain k v where e: "e = (k, v)" by (cases e)
  show ?case
  proof (cases "formatType k v (getType v)")
    case (Inl err)
    then show ?thesis by (simp add: e)
  next
    case (Inr np)
    show ?thesis
      by (cases "mapE (\<lambda>(x, v). formatType x v (getType v)) es") (simp_all add: e Inr Cons.IH)
  qed
qed

lemma formatParams_object:
  "formatParams (JObj kvs) = mapE (\<lambda>(x, v). formatType x v (getType v)) kvs"
  by (simp add: formatParams_def formatParams_reduce_mapE thenE_Inr_id)

lemma mapE_all_typed:
  "(\<forall>(k, v) \<in> set kvs. getType v \<noteq> None)
     \<Longrightarrow> mapE (\<lambda>(x, v). formatType x v (getType v)) kvs = Inr (map named_parameter kvs)"
proof (induction kvs)
  case Nil
  then show ?case by simp
next
  case (Cons e kvs)
  obtain k v where e: "e = (k, v)" by (cases e)
  obtain t where t: "getType v = Some t" using Cons.prems by (auto simp: e)
  have rest: "mapE (\<lambda>(x, v). formatType x v (getType v)) kvs = Inr (map named_parameter kvs)"
    using Cons by simp
  have hd: "formatType k v (getType v) = Inr (named_parameter (k, v))"
    by (simp add: t formatType_def named_parameter_def)
  show ?case by (simp add: e hd rest)
qed

lemma mapE_append:
  "mapE f (xs @ ys) = thenE (mapE f xs) (\<lambda>as. thenE (mapE f ys) (\<lambda>bs. Inr (as @ bs)))"
proof (induction xs)
  case Nil
  then show ?case by (cases "mapE f ys") simp_all
next
  case (Cons x xs)
  show ?case
  proof (cases "f x")
    case (Inl e)
    then show ?thesis by simp
  next
    case (Inr y)
    show ?thesis
      by (cases "mapE f xs"; cases "mapE f ys") (simp_all add: Inr Cons.IH)
  qed
qed

lemma formatParams_first_invalid:
  assumes "getType v = None" and "\<forall>(k', v') \<in> set pre. getType v' \<noteq> None"
  shows "formatParams (JObj (pre @ (k, v) # post))
           = Inl (Error (sq @ k @ sq @ sq @ '' is an invalid type''))"
proof -
  have bad: "formatType k v (getType v) = Inl (Error (sq @ k @ sq @ sq @ '' is an invalid type''))"
    by (simp add: assms(1) formatType_def)
  show ?thesis
    by (simp add: formatParams_object mapE_append mapE_all_typed [OF assms(2)] bad)
qed

lemma annotateParams_reduce: "annotateParams ps = reduceE annotate_step ps []"
proof -
  have "annotate_step = (\<lambda>acc p.
         case p of
           JArr ps \<Rightarrow> thenE (annotateParams ps) (\<lambda>r. Inr (acc @ [JArr r]))
         | _ \<Rightarrow>
             thenE (own_entries p) (\<lambda>es.
               if length es = 2 \<and> truthy (member_of p ''name'') \<and> truthy (member_of p ''value'')
               then Inr (acc @ [p])
               else thenE (formatParams p) (\<lambda>nps. Inr (acc @ nps))))"
    by (intro ext) (simp add: annotate_step_def)
  then show ?thesis by (simp add: annotateParams.simps)
qed

lemma annotate_step_acc:
  "annotate_step acc p = thenE (annotate_step [] p) (\<lambda>xs. Inr (acc @ xs))"
proof (cases p)
  case (JArr ps)
  then show ?thesis by (cases "annotateParams ps") (simp_all add: annotate_step_def)
next
  case JUndefined
  then show ?thesis by (simp add: annotate_step_def)
next
  case JNull
  then show ?thesis by (simp add: annotate_step_def)
next
  case (JBool b)
  then show ?thesis by (cases "formatParams p") (simp_all add: annotate_step_def)
next
  case (JNum n)
  then show ?thesis by (cases "formatParams p") (simp_all add: annotate_step_def)
next
  case (JStr s)
  then show ?thesis by (cases "formatParams p") (simp_all add: annotate_step_def)
next
  case (JBuffer bs)
  then show ?thesis by (cases "formatParams p") (simp_all add: annotate_step_def)
next
  case JFunction
  then show ?thesis by (cases "formatParams p") (simp_all add: annotate_step_def)
next
  case (JObj kvs)
  then show ?thesis by (cases "formatParams p") (simp_all add: annotate_step_def)
qed

lemma reduce_annotate_acc:
  "reduceE annotate_step ps acc = thenE (reduceE annotate_step ps []) (\<lambda>r. Inr (acc @ r))"
proof (induction ps arbitrary: acc)
  case Nil
  then show ?case by simp
next
  case (Cons p ps)
  show ?case
  proof (cases "annotate_step [] p")
    case (Inl e)
    then show ?thesis using annotate_step_acc [of acc p] by simp
  next
    case (Inr xs)
    have a: "annotate_step acc p = Inr (acc @ xs)"
      using annotate_step_acc [of acc p] Inr by simp
    show ?thesis
      using Cons.IH [of "acc @ xs"] Cons.IH [of xs]
      by (cases "reduceE annotate_step ps []") (simp_all add: a Inr)
  qed
qed

lemma annotateParams_Cons:
  "annotateParams (p # ps)
     = thenE (annotateParams [p]) (\<lambda>xs. thenE (annotateParams ps) (\<lambda>ys. Inr (xs @ ys)))"
proof (cases "annotate_step [] p")
  case (Inl e)
  then show ?thesis by (simp add: annotateParams_reduce)
next
  case (Inr xs)
  show ?thesis
    using reduce_annotate_acc [of ps xs]
    by (simp add: annotateParams_reduce Inr)
qed

lemma reduceE_Nil_fun: "reduceE f [] = Inr"
  by (rule ext) simp

lemma annotate_object:
  "annotateParams [JObj kvs]
     = (if length kvs = 2 \<and> truthy (lookup kvs ''name'') \<and> truthy (lookup kvs ''value'')
        then Inr [JObj kvs]
        else mapE (\<lambda>(x, v). formatType x v (getType v)) kvs)"
proof -
  have step: "annotate_step [] (JObj kvs)
     = (if length kvs = 2 \<and> truthy (lookup kvs ''name'') \<and> truthy (lookup kvs ''value'')
        then Inr [JObj kvs]
        else mapE (\<lambda>(x, v). formatType x v (getType v)) kvs)"
    by (simp add: annotate_step_def member_of_def lookup_def formatParams_object thenE_Inr_id)
  have "annotateParams [JObj kvs] = thenE (annotate_step [] (JObj kvs)) Inr"
    by (simp add: annotateParams_reduce reduceE_Nil_fun)
  then show ?thesis by (simp only: step thenE_Inr_id)
qed

lemma annotate_array:
  "annotateParams [JArr qs] = thenE (annotateParams qs) (\<lambda>r. Inr [JArr r])"
  by (cases "annotateParams qs") (simp_all add: annotateParams_reduce [of "[JArr qs]"] annotate_step_def)

lemma passthrough_shape:
  "(length kvs = 2 \<and> truthy (lookup kvs ''name'') \<and> truthy (lookup kvs ''value''))
   \<longleftrightarrow> (\<exists>n v. truthy n \<and> truthy v
          \<and> (kvs = [(''name'', n), (''value'', v)] \<or> kvs = [(''value'', v), (''name'', n)]))"
proof
  assume l: "length kvs = 2 \<and> truthy (lookup kvs ''name'') \<and> truthy (lookup kvs ''value'')"
  then obtain k1 v1 k2 v2 where kvs: "kvs = [(k1, v1), (k2, v2)]"
    by (cases kvs; cases "tl kvs") auto
  show "\<exists>n v. truthy n \<and> truthy v
          \<and> (kvs = [(''name'', n), (''value'', v)] \<or> kvs = [(''value'', v), (''name'', n)])"
    using l unfolding kvs by (auto simp: lookup_def split: if_splits)
next
  assume "\<exists>n v. truthy n \<and> truthy v
          \<and> (kvs = [(''name'', n), (''value'', v)] \<or> kvs = [(''value'', v), (''name'', n)])"
  then show "length kvs = 2 \<and> truthy (lookup kvs ''name'') \<and> truthy (lookup kvs ''value'')"
    by (auto simp: lookup_def)
qed

lemma annotate_batch_example:
  "annotateParams [JArr [JObj [(''a'', JNum (Fin 1))]], JArr [JObj [(''a'', JNum (Fin 2))]]]
   = Inr [JArr [JObj [(''name'', JStr ''a''), (''value'', JObj [(''longValue'', JNum (Fin 1))])]],
          JArr [JObj [(''name'', JStr ''a''), (''value'', JObj [(''longValue'', JNum (Fin 2))])]]]"
  by (simp add: annotateParams.simps formatParams_def formatType_def member_of_def)


















section \<open>Construction: the hydration default\<close>

text \<open>
  C1 (code evaluated at the failing input). The claim: a boolean
  \<^verbatim>\<open>hydrateColumnNames\<close> given at construction is the configuration's value, and the
  value is true when none is given. The code stores \<^verbatim>\<open>false\<close> for every boolean,
  also for \<^verbatim>\<open>true\<close>; only the default is as claimed.
\<close>

theorem C1_hydrate_true_stored_as_false:
  "module_exports (JObj [(''secretArn'', JStr ''s''), (''resourceArn'', JStr ''r''),
       (''hydrateColumnNames'', JBool True)])
     = Inr \<lparr> secretArn = ''s'', resourceArn = ''r'', database = None,
             hydrateColumnNames = False \<rparr>
   \<and> module_exports (JObj [(''secretArn'', JStr ''s''), (''resourceArn'', JStr ''r''),
       (''hydrateColumnNames'', JBool False)])
     = Inr \<lparr> secretArn = ''s'', resourceArn = ''r'', database = None,
             hydrateColumnNames = False \<rparr>
   \<and> module_exports (JObj [(''secretArn'', JStr ''s''), (''resourceArn'', JStr ''r'')])
     = Inr \<lparr> secretArn = ''s'', resourceArn = ''r'', database = None,
             hydrateColumnNames = True \<rparr>"
  by (simp add: module_exports_def)

section \<open>Payload keys for parameters\<close>

text \<open>
  C2 (code evaluated at two failing inputs). The claim: the payload holds at most one
  of the keys \<^verbatim>\<open>parameters\<close> and \<^verbatim>\<open>parameterSets\<close>, and neither when the annotated
  sequence is empty, also when the call is made with an options object that carries a
  \<^verbatim>\<open>parameters\<close> field. The code copies the caller's \<^verbatim>\<open>parameters\<close> field into the
  payload: a batch made through an options object sends both keys (the first one
  holding the raw, unannotated sets), and an empty \<^verbatim>\<open>parameters\<close> array is sent as it
  is.
\<close>

theorem C2_both_keys_in_batch_payload:
  "query_request \<lparr> secretArn = ''s'', resourceArn = ''r'', database = Some ''db'',
                    hydrateColumnNames = True \<rparr>
     [JObj [(''sql'', JStr ''q''),
            (''parameters'', JArr [JArr [JObj [(''a'', JNum (Fin 1))]],
                                   JArr [JObj [(''a'', JNum (Fin 2))]]])]]
   = Inr \<lparr> isBatch = True,
           params =
             [(''secretArn'', JStr ''s''), (''resourceArn'', JStr ''r''), (''sql'', JStr ''q''),
              (''parameters'', JArr [JArr [JObj [(''a'', JNum (Fin 1))]],
                                     JArr [JObj [(''a'', JNum (Fin 2))]]]),
              (''database'', JStr ''db''),
              (''parameterSets'',
                 JArr [JArr [JObj [(''name'', JStr ''a''),
                                   (''value'', JObj [(''longValue'', JNum (Fin 1))])]],
                       JArr [JObj [(''name'', JStr ''a''),
                                   (''value'', JObj [(''longValue'', JNum (Fin 2))])]]])],
           hydrate = True \<rparr>
   \<and> query_request \<lparr> secretArn = ''s'', resourceArn = ''r'', database = Some ''db'',
                    hydrateColumnNames = False \<rparr>
     [JObj [(''sql'', JStr ''q''), (''parameters'', JArr [])]]
   = Inr \<lparr> isBatch = False,
           params =
             [(''secretArn'', JStr ''s''), (''resourceArn'', JStr ''r''), (''sql'', JStr ''q''),
              (''parameters'', JArr []), (''database'', JStr ''db'')],
           hydrate = False \<rparr>"
  by (simp add: query_request_def parseSQL_def parseHydrate_def parseParams_def
      parseDatabase_def prepareParams_def omit_def arg_def annotate_batch_example
      annotateParams.simps [of "[]"])

section \<open>Hydration of the example response\<close>

text \<open>
  C3. For the records \<^verbatim>\<open>[[{stringValue:"x"}],[{isNull:true}]]\<close> with the column
  metadata \<^verbatim>\<open>[{label:"col"}]\<close>, hydration with column names gives
  \<^verbatim>\<open>[{col:"x"},{col:null}]\<close> and hydration without gives \<^verbatim>\<open>[["x"],[null]]\<close>; in both
  modes \<^verbatim>\<open>numberOfRecordsUpdated\<close> (any value \<open>n\<close>) is in the output as it came.
\<close>

theorem C3_hydration_example:
  "formatResults
     \<lparr> columnMetadata = Some [\<lparr> label = ''col'' \<rparr>], numberOfRecordsUpdated = n,
       records = Some [[[(''stringValue'', JStr ''x'')]], [[(''isNull'', JBool True)]]] \<rparr>
     True includeMeta
   = Inr \<lparr> out_columnMetadata =
             (if includeMeta then Some (Some [\<lparr> label = ''col'' \<rparr>]) else None),
           out_numberOfRecordsUpdated = n,
           out_records = [JObj [(''col'', JStr ''x'')], JObj [(''col'', JNull)]] \<rparr>
   \<and> formatResults
     \<lparr> columnMetadata = Some [\<lparr> label = ''col'' \<rparr>], numberOfRecordsUpdated = n,
       records = Some [[[(''stringValue'', JStr ''x'')]], [[(''isNull'', JBool True)]]] \<rparr>
     False includeMeta
   = Inr \<lparr> out_columnMetadata =
             (if includeMeta then Some (Some [\<lparr> label = ''col'' \<rparr>]) else None),
           out_numberOfRecordsUpdated = n,
           out_records = [JArr [JStr ''x''], JArr [JNull]] \<rparr>"
  by (simp add: formatResults_def formatRecords_def fmap_seed_def hydrate_field_def
      lookup_def emit_def key_of_def)

section \<open>Wire type tags\<close>

text \<open>
  C4, as stated, fails on the code: the claim gives the integer tag to every value that
  is an exact integer, and the code gives \<^verbatim>\<open>10^21\<close>, an exact integer, the double tag
  (\<^verbatim>\<open>parseInt(1e21)\<close> is 1).
\<close>

theorem C4_large_integer_is_double:
  "of_int \<lfloor>1000000000000000000000 :: rat\<rfloor> = (1000000000000000000000 :: rat)
   \<and> getType (JNum (Fin 1000000000000000000000)) = Some ''doubleValue''
   \<and> getType (JNum (Fin 1000000000000000000000)) \<noteq> Some ''longValue''"
  by simp

text \<open>
  C4, amended. Every value gets at most one tag: a string \<^verbatim>\<open>stringValue\<close>, a boolean
  \<^verbatim>\<open>booleanValue\<close>, a number that is an integer of magnitude below \<open>10^21\<close>
  \<^verbatim>\<open>longValue\<close>, every other number but \<^verbatim>\<open>NaN\<close> (a fraction, an integer from
  \<open>10^21\<close> on, an infinity) \<^verbatim>\<open>doubleValue\<close>, \<^verbatim>\<open>null\<close> \<^verbatim>\<open>isNull\<close>, a Buffer
  \<^verbatim>\<open>blobValue\<close>. \<^verbatim>\<open>NaN\<close>, \<^verbatim>\<open>undefined\<close>, a function, an array and an object get
  none. A value \<open>v\<close> with tag \<open>t\<close> under key \<open>name\<close> becomes
  \<^verbatim>\<open>{name, value: {[t]: v}}\<close>; annotating an object (one that is not passed through as
  pre-annotated) fails at its first key whose value has no tag, with the invalid type error
  that carries that key.
\<close>

theorem C4_type_tags:
  "getType (JStr s) = Some ''stringValue''
   \<and> getType (JBool b) = Some ''booleanValue''
   \<and> (of_int \<lfloor>q\<rfloor> = q \<and> \<bar>q\<bar> < 10 ^ 21 \<longrightarrow> getType (JNum (Fin q)) = Some ''longValue'')
   \<and> (\<not> (of_int \<lfloor>q\<rfloor> = q \<and> \<bar>q\<bar> < 10 ^ 21) \<longrightarrow> getType (JNum (Fin q)) = Some ''doubleValue'')
   \<and> getType (JNum PosInf) = Some ''doubleValue''
   \<and> getType (JNum NegInf) = Some ''doubleValue''
   \<and> getType JNull = Some ''isNull''
   \<and> getType (JBuffer bs) = Some ''blobValue''
   \<and> getType (JNum NaN) = None
   \<and> getType JUndefined = None
   \<and> getType JFunction = None
   \<and> getType (JArr xs) = None
   \<and> getType (JObj kvs) = None
   \<and> formatType name' v (Some t) = Inr (JObj [(''name'', JStr name'), (''value'', JObj [(t, v)])])
   \<and> formatType name' v None = Inl (Error (sq @ name' @ sq @ sq @ '' is an invalid type''))
   \<and> (getType bad = None \<and> (\<forall>(k', v') \<in> set pre. getType v' \<noteq> None) \<longrightarrow>
        formatParams (JObj (pre @ (k, bad) # post))
          = Inl (Error (sq @ k @ sq @ sq @ '' is an invalid type''))
        \<and> (\<not> (\<exists>n w. truthy n \<and> truthy w
                 \<and> (pre @ (k, bad) # post = [(''name'', n), (''value'', w)]
                    \<or> pre @ (k, bad) # post = [(''value'', w), (''name'', n)])) \<longrightarrow>
           annotateParams [JObj (pre @ (k, bad) # post)]
             = Inl (Error (sq @ k @ sq @ sq @ '' is an invalid type''))))"
proof -
  have tags: "(of_int \<lfloor>q\<rfloor> = q \<and> \<bar>q\<bar> < 10 ^ 21 \<longrightarrow> getType (JNum (Fin q)) = Some ''longValue'')
      \<and> (\<not> (of_int \<lfloor>q\<rfloor> = q \<and> \<bar>q\<bar> < 10 ^ 21) \<longrightarrow> getType (JNum (Fin q)) = Some ''doubleValue'')"
    by simp
  have fmt: "formatType name' v (Some t) = Inr (JObj [(''name'', JStr name'), (''value'', JObj [(t, v)])])
      \<and> formatType name' v None = Inl (Error (sq @ name' @ sq @ sq @ '' is an invalid type''))"
    by (simp add: formatType_def)
  have fail: "getType bad = None \<and> (\<forall>(k', v') \<in> set pre. getType v' \<noteq> None) \<longrightarrow>
        formatParams (JObj (pre @ (k, bad) # post))
          = Inl (Error (sq @ k @ sq @ sq @ '' is an invalid type''))
        \<and> (\<not> (\<exists>n w. truthy n \<and> truthy w
                 \<and> (pre @ (k, bad) # post = [(''name'', n), (''value'', w)]
                    \<or> pre @ (k, bad) # post = [(''value'', w), (''name'', n)])) \<longrightarrow>
           annotateParams [JObj (pre @ (k, bad) # post)]
             = Inl (Error (sq @ k @ sq @ sq @ '' is an invalid type'')))"
  proof (intro impI conjI)
    assume a: "getType bad = None \<and> (\<forall>(k', v') \<in> set pre. getType v' \<noteq> None)"
    show f: "formatParams (JObj (pre @ (k, bad) # post))
          = Inl (Error (sq @ k @ sq @ sq @ '' is an invalid type''))"
      using a by (intro formatParams_first_invalid) simp_all
    assume "\<not> (\<exists>n w. truthy n \<and> truthy w
                 \<and> (pre @ (k, bad) # post = [(''name'', n), (''value'', w)]
                    \<or> pre @ (k, bad) # post = [(''value'', w), (''name'', n)]))"
    then have nopass: "\<not> (length (pre @ (k, bad) # post) = 2
        \<and> truthy (lookup (pre @ (k, bad) # post) ''name'')
        \<and> truthy (lookup (pre @ (k, bad) # post) ''value''))"
      using passthrough_shape [of "pre @ (k, bad) # post"] by blast
    show "annotateParams [JObj (pre @ (k, bad) # post)]
          = Inl (Error (sq @ k @ sq @ sq @ '' is an invalid type''))"
      using f nopass
      by (simp only: annotate_object [of "pre @ (k, bad) # post"] formatParams_object if_False
          simp_thms)
  qed
  show ?thesis using tags fmt fail by simp
qed

theorem C4_type_tags_witness:
  "of_int \<lfloor>7 :: rat\<rfloor> = (7 :: rat) \<and> \<bar>7 :: rat\<bar> < 10 ^ 21
   \<and> getType (JNum (Fin 7)) = Some ''longValue''
   \<and> \<not> (of_int \<lfloor>1000000000000000000000 :: rat\<rfloor> = (1000000000000000000000 :: rat)
          \<and> \<bar>1000000000000000000000 :: rat\<bar> < 10 ^ 21)
   \<and> getType (JNum (Fin 1000000000000000000000)) = Some ''doubleValue''
   \<and> getType JFunction = None \<and> getType (JStr ''x'') \<noteq> None
   \<and> annotateParams [JObj [(''id'', JStr ''x''), (''cb'', JFunction), (''z'', JNum NaN)]]
       = Inl (Error (sq @ ''cb'' @ sq @ sq @ '' is an invalid type''))"
  using C4_type_tags [of "''x''" True 7 bs xs kvs "''n''" JNull "''isNull''" JFunction
      "[(''id'', JStr ''x'')]" "''cb''" "[(''z'', JNum NaN)]"]
    C4_type_tags [of "''x''" True 1000000000000000000000 bs xs kvs "''n''" JNull "''isNull''"
      JFunction "[(''id'', JStr ''x'')]" "''cb''" "[(''z'', JNum NaN)]"]
  by simp

section \<open>Batch detection, dispatch and forced metadata\<close>

text \<open>
  C5. When the request of a query is assembled: the call is a batch iff the annotated
  parameter sequence is non-empty and its first element is an array; the remote method
  is \<^verbatim>\<open>batchExecuteStatement\<close> for a batch and \<^verbatim>\<open>executeStatement\<close> otherwise; and
  the payload's \<^verbatim>\<open>includeResultMetadata\<close> is set to \<^verbatim>\<open>true\<close> when hydration is on and
  the call is not a batch, whatever the caller gave, and is otherwise what the caller
  gave in the options object, if anything.
\<close>

theorem C5_batch_dispatch_metadata:
  assumes "query_request cfg args = Inr req"
  shows "(\<exists>parameters. thenE (parseParams args) annotateParams = Inr parameters
            \<and> (isBatch req \<longleftrightarrow> parameters \<noteq> [] \<and> isArray (hd parameters)))
    \<and> parseHydrate cfg args = Inr (hydrate req)
    \<and> query cfg rds args
        = thenE (rds (if isBatch req then BatchExecuteStatement else ExecuteStatement)
                   (params req))
            (\<lambda>resp. thenE (get (arg args 0) ''includeResultMetadata'')
               (\<lambda>m. formatResults resp (hydrate req) (m = JBool True)))
    \<and> (hydrate req \<and> \<not> isBatch req \<longrightarrow>
          map_of (params req) ''includeResultMetadata'' = Some (JBool True))
    \<and> (\<not> (hydrate req \<and> \<not> isBatch req) \<longrightarrow>
          (\<forall>s. arg args 0 = JStr s \<longrightarrow> map_of (params req) ''includeResultMetadata'' = None)
        \<and> (\<forall>kvs. arg args 0 = JObj kvs \<and> distinct (map fst kvs) \<longrightarrow>
              map_of (params req) ''includeResultMetadata''
                = map_of kvs ''includeResultMetadata''))"
proof -
  obtain sql h parameters prepared db where
    "parseSQL args = Inr sql"
    and h: "parseHydrate cfg args = Inr h"
    and ps: "thenE (parseParams args) annotateParams = Inr parameters"
    and pr: "prepareParams cfg args = Inr prepared"
    and "parseDatabase cfg args = Inr db"
    and b: "isBatch req = (case parameters of [] \<Rightarrow> False | p # ps \<Rightarrow> isArray p)"
    and hr: "hydrate req = h"
    and pl: "params req =
        assign
          (assign
             (assign prepared [(''database'', JStr db), (''sql'', JStr sql)])
             (if parameters \<noteq> [] then
                [(if isBatch req then ''parameterSets'' else ''parameters'', JArr parameters)]
              else []))
          (if h \<and> \<not> isBatch req then [(''includeResultMetadata'', JBool True)] else [])"
    by (rule query_request_stages [OF assms])
  have batch: "isBatch req \<longleftrightarrow> parameters \<noteq> [] \<and> isArray (hd parameters)"
    by (cases parameters) (simp_all add: b)
  have c1: "\<exists>parameters. thenE (parseParams args) annotateParams = Inr parameters
            \<and> (isBatch req \<longleftrightarrow> parameters \<noteq> [] \<and> isArray (hd parameters))"
    using ps batch by blast
  have c2: "parseHydrate cfg args = Inr (hydrate req)"
    using h hr by simp
  have c3: "query cfg rds args
        = thenE (rds (if isBatch req then BatchExecuteStatement else ExecuteStatement)
                   (params req))
            (\<lambda>resp. thenE (get (arg args 0) ''includeResultMetadata'')
               (\<lambda>m. formatResults resp (hydrate req) (m = JBool True)))"
    by (simp add: query_def assms)
  have c4: "hydrate req \<and> \<not> isBatch req \<longrightarrow>
          map_of (params req) ''includeResultMetadata'' = Some (JBool True)"
    by (simp add: pl hr map_of_obj_set)
  have other: "\<not> (hydrate req \<and> \<not> isBatch req) \<Longrightarrow>
      map_of (params req) ''includeResultMetadata'' = map_of prepared ''includeResultMetadata''"
    by (cases "parameters = []") (auto simp: pl hr map_of_obj_set)
  have c5: "\<not> (hydrate req \<and> \<not> isBatch req) \<longrightarrow>
          (\<forall>s. arg args 0 = JStr s \<longrightarrow> map_of (params req) ''includeResultMetadata'' = None)
        \<and> (\<forall>kvs. arg args 0 = JObj kvs \<and> distinct (map fst kvs) \<longrightarrow>
              map_of (params req) ''includeResultMetadata''
                = map_of kvs ''includeResultMetadata'')"
  proof (intro impI conjI allI)
    fix s
    assume n: "\<not> (hydrate req \<and> \<not> isBatch req)" and a: "arg args 0 = JStr s"
    show "map_of (params req) ''includeResultMetadata'' = None"
      using other [OF n] prepared_plain_sql [OF a pr] by simp
  next
    fix kvs
    assume n: "\<not> (hydrate req \<and> \<not> isBatch req)"
      and a: "arg args 0 = JObj kvs \<and> distinct (map fst kvs)"
    show "map_of (params req) ''includeResultMetadata'' = map_of kvs ''includeResultMetadata''"
      using other [OF n] prepared_object [OF _ _ pr, of kvs] a by simp
  qed
  show ?thesis by (intro conjI c1 c2 c3 c4 c5)
qed

theorem C5_batch_dispatch_metadata_witness:
  "query_request \<lparr> secretArn = ''s'', resourceArn = ''r'', database = Some ''db'',
                    hydrateColumnNames = True \<rparr>
     [JObj [(''sql'', JStr ''q''), (''includeResultMetadata'', JBool False),
            (''parameters'', JArr [JObj [(''id'', JNum (Fin 1))]])]]
   = Inr \<lparr> isBatch = False,
           params =
             [(''secretArn'', JStr ''s''), (''resourceArn'', JStr ''r''), (''sql'', JStr ''q''),
              (''includeResultMetadata'', JBool True),
              (''parameters'',
                 JArr [JObj [(''name'', JStr ''id''),
                             (''value'', JObj [(''longValue'', JNum (Fin 1))])]]),
              (''database'', JStr ''db'')],
           hydrate = True \<rparr>
   \<and> query \<lparr> secretArn = ''s'', resourceArn = ''r'', database = Some ''db'',
              hydrateColumnNames = True \<rparr>
       (\<lambda>m p. if m = ExecuteStatement then Inl (Error ''single'') else Inl (Error ''batch''))
       [JObj [(''sql'', JStr ''q''), (''includeResultMetadata'', JBool False),
            (''parameters'', JArr [JObj [(''id'', JNum (Fin 1))]])]]
     = Inl (Error ''single'')
   \<and> query_request \<lparr> secretArn = ''s'', resourceArn = ''r'', database = Some ''db'',
                    hydrateColumnNames = True \<rparr>
     [JObj [(''sql'', JStr ''q''), (''includeResultMetadata'', JBool False),
            (''parameters'', JArr [JArr [JObj [(''id'', JNum (Fin 1))]]])]]
   = Inr \<lparr> isBatch = True,
           params =
             [(''secretArn'', JStr ''s''), (''resourceArn'', JStr ''r''), (''sql'', JStr ''q''),
              (''includeResultMetadata'', JBool False),
              (''parameters'', JArr [JArr [JObj [(''id'', JNum (Fin 1))]]]),
              (''database'', JStr ''db''),
              (''parameterSets'',
                 JArr [JArr [JObj [(''name'', JStr ''id''),
                                   (''value'', JObj [(''longValue'', JNum (Fin 1))])]]])],
           hydrate = True \<rparr>
   \<and> query \<lparr> secretArn = ''s'', resourceArn = ''r'', database = Some ''db'',
              hydrateColumnNames = True \<rparr>
       (\<lambda>m p. if m = ExecuteStatement then Inl (Error ''single'') else Inl (Error ''batch''))
       [JObj [(''sql'', JStr ''q''), (''includeResultMetadata'', JBool False),
            (''parameters'', JArr [JArr [JObj [(''id'', JNum (Fin 1))]]])]]
     = Inl (Error ''batch'')
   \<and> query_request \<lparr> secretArn = ''s'', resourceArn = ''r'', database = Some ''db'',
                    hydrateColumnNames = False \<rparr> [JStr ''q'']
   = Inr \<lparr> isBatch = False,
           params =
             [(''secretArn'', JStr ''s''), (''resourceArn'', JStr ''r''),
              (''database'', JStr ''db''), (''sql'', JStr ''q'')],
           hydrate = False \<rparr>"
proof -
  let ?cfg = "\<lparr> secretArn = ''s'', resourceArn = ''r'', database = Some ''db'',
                hydrateColumnNames = True \<rparr>"
  let ?rds = "\<lambda>(m::rds_method) (p::(string \<times> jsval) list).
      if m = ExecuteStatement then (Inl (Error ''single'') :: error + response)
      else Inl (Error ''batch'')"
  let ?one = "[JObj [(''sql'', JStr ''q''), (''includeResultMetadata'', JBool False),
            (''parameters'', JArr [JObj [(''id'', JNum (Fin 1))]])]]"
  let ?many = "[JObj [(''sql'', JStr ''q''), (''includeResultMetadata'', JBool False),
            (''parameters'', JArr [JArr [JObj [(''id'', JNum (Fin 1))]]])]]"
  let ?r1 = "\<lparr> isBatch = False,
           params =
             [(''secretArn'', JStr ''s''), (''resourceArn'', JStr ''r''), (''sql'', JStr ''q''),
              (''includeResultMetadata'', JBool True),
              (''parameters'',
                 JArr [JObj [(''name'', JStr ''id''),
                             (''value'', JObj [(''longValue'', JNum (Fin 1))])]]),
              (''database'', JStr ''db'')],
           hydrate = True \<rparr>"
  let ?r2 = "\<lparr> isBatch = True,
           params =
             [(''secretArn'', JStr ''s''), (''resourceArn'', JStr ''r''), (''sql'', JStr ''q''),
              (''includeResultMetadata'', JBool False),
              (''parameters'', JArr [JArr [JObj [(''id'', JNum (Fin 1))]]]),
              (''database'', JStr ''db''),
              (''parameterSets'',
                 JArr [JArr [JObj [(''name'', JStr ''id''),
                                   (''value'', JObj [(''longValue'', JNum (Fin 1))])]]])],
           hydrate = True \<rparr>"
  have a1: "annotateParams [JObj [(''id'', JNum (Fin 1))]]
      = Inr [JObj [(''name'', JStr ''id''), (''value'', JObj [(''longValue'', JNum (Fin 1))])]]"
    by (simp add: annotate_object lookup_def formatType_def)
  have a2: "annotateParams [JArr [JObj [(''id'', JNum (Fin 1))]]]
      = Inr [JArr [JObj [(''name'', JStr ''id''),
                         (''value'', JObj [(''longValue'', JNum (Fin 1))])]]]"
    by (simp add: annotate_array a1)
  have r1: "query_request ?cfg ?one = Inr ?r1"
    by (simp add: query_request_def parseSQL_def parseHydrate_def parseParams_def
        parseDatabase_def prepareParams_def omit_def arg_def a1)
  have r2: "query_request ?cfg ?many = Inr ?r2"
    by (simp add: query_request_def parseSQL_def parseHydrate_def parseParams_def
        parseDatabase_def prepareParams_def omit_def arg_def a2)
  have r3: "query_request \<lparr> secretArn = ''s'', resourceArn = ''r'', database = Some ''db'',
                    hydrateColumnNames = False \<rparr> [JStr ''q'']
      = Inr \<lparr> isBatch = False,
           params =
             [(''secretArn'', JStr ''s''), (''resourceArn'', JStr ''r''),
              (''database'', JStr ''db''), (''sql'', JStr ''q'')],
           hydrate = False \<rparr>"
    by (simp add: query_request_def parseSQL_def parseHydrate_def parseParams_def
        parseDatabase_def prepareParams_def arg_def annotateParams.simps [of "[]"])
  have q1: "query ?cfg ?rds ?one = Inl (Error ''single'')"
    using C5_batch_dispatch_metadata [OF r1, of ?rds, THEN conjunct2, THEN conjunct2,
        THEN conjunct1]
    by simp
  have q2: "query ?cfg ?rds ?many = Inl (Error ''batch'')"
    using C5_batch_dispatch_metadata [OF r2, of ?rds, THEN conjunct2, THEN conjunct2,
        THEN conjunct1]
    by simp
  have forced: "map_of (params ?r1) ''includeResultMetadata'' = Some (JBool True)"
    using C5_batch_dispatch_metadata [OF r1, of ?rds, THEN conjunct2, THEN conjunct2,
        THEN conjunct2, THEN conjunct1]
    by simp
  have kept: "map_of (params ?r2) ''includeResultMetadata''
      = map_of [(''sql'', JStr ''q''), (''includeResultMetadata'', JBool False),
            (''parameters'', JArr [JArr [JObj [(''id'', JNum (Fin 1))]]])]
          ''includeResultMetadata''"
    using C5_batch_dispatch_metadata [OF r2, of ?rds, THEN conjunct2, THEN conjunct2,
        THEN conjunct2, THEN conjunct2]
    by (simp add: arg_def)
  have none: "map_of (params \<lparr> isBatch = False,
           params =
             [(''secretArn'', JStr ''s''), (''resourceArn'', JStr ''r''),
              (''database'', JStr ''db''), (''sql'', JStr ''q'')],
           hydrate = False \<rparr>) ''includeResultMetadata'' = None"
    using C5_batch_dispatch_metadata [OF r3, of ?rds, THEN conjunct2, THEN conjunct2,
        THEN conjunct2, THEN conjunct2]
    by (simp add: arg_def)
  show ?thesis
    using forced kept none by (intro conjI r1 q1 r2 q2 r3)
qed

section \<open>Annotation of the entries of a parameter sequence\<close>

text \<open>
  C6. An entry that is an object with exactly the two keys \<^verbatim>\<open>name\<close> and
  \<^verbatim>\<open>value\<close> (in either order), both truthy, is passed through unchanged. Every other
  object entry is expanded key by key, each key giving one Named Parameter (the
  expansion throws at a value that has no wire type, and gives one Named Parameter per
  key when every value has one). An entry that is an array is annotated recursively and
  gives one nested array. The entries are annotated one by one, in order.
\<close>

theorem C6_annotation_of_entries:
  "(truthy n \<and> truthy v \<longrightarrow>
       annotateParams [JObj [(''name'', n), (''value'', v)]]
         = Inr [JObj [(''name'', n), (''value'', v)]]
     \<and> annotateParams [JObj [(''value'', v), (''name'', n)]]
         = Inr [JObj [(''value'', v), (''name'', n)]])
   \<and> (\<not> (\<exists>n v. truthy n \<and> truthy v
            \<and> (kvs = [(''name'', n), (''value'', v)] \<or> kvs = [(''value'', v), (''name'', n)])) \<longrightarrow>
       annotateParams [JObj kvs] = mapE (\<lambda>(k, v). formatType k v (getType v)) kvs
     \<and> ((\<forall>(k, v) \<in> set kvs. getType v \<noteq> None) \<longrightarrow>
          annotateParams [JObj kvs] = Inr (map named_parameter kvs)))
   \<and> annotateParams [JArr qs] = thenE (annotateParams qs) (\<lambda>r. Inr [JArr r])
   \<and> annotateParams (p # ps)
       = thenE (annotateParams [p]) (\<lambda>xs. thenE (annotateParams ps) (\<lambda>ys. Inr (xs @ ys)))"
proof -
  have pass: "truthy n \<and> truthy v \<longrightarrow>
       annotateParams [JObj [(''name'', n), (''value'', v)]]
         = Inr [JObj [(''name'', n), (''value'', v)]]
     \<and> annotateParams [JObj [(''value'', v), (''name'', n)]]
         = Inr [JObj [(''value'', v), (''name'', n)]]"
    by (simp add: annotate_object lookup_def)
  have expand: "\<not> (\<exists>n v. truthy n \<and> truthy v
            \<and> (kvs = [(''name'', n), (''value'', v)] \<or> kvs = [(''value'', v), (''name'', n)])) \<longrightarrow>
       annotateParams [JObj kvs] = mapE (\<lambda>(k, v). formatType k v (getType v)) kvs
     \<and> ((\<forall>(k, v) \<in> set kvs. getType v \<noteq> None) \<longrightarrow>
          annotateParams [JObj kvs] = Inr (map named_parameter kvs))"
  proof (intro impI conjI)
    assume "\<not> (\<exists>n v. truthy n \<and> truthy v
            \<and> (kvs = [(''name'', n), (''value'', v)] \<or> kvs = [(''value'', v), (''name'', n)]))"
    then have nopass: "\<not> (length kvs = 2 \<and> truthy (lookup kvs ''name'')
        \<and> truthy (lookup kvs ''value''))"
      using passthrough_shape [of kvs] by blast
    show e: "annotateParams [JObj kvs] = mapE (\<lambda>(k, v). formatType k v (getType v)) kvs"
      using nopass by (simp only: annotate_object [of kvs] if_False)
    assume "\<forall>(k, v) \<in> set kvs. getType v \<noteq> None"
    then show "annotateParams [JObj kvs] = Inr (map named_parameter kvs)"
      using e mapE_all_typed [of kvs] by simp
  qed
  show ?thesis
    by (intro conjI pass expand annotate_array annotateParams_Cons)
qed

theorem C6_annotation_of_entries_witness:
  "truthy (JStr ''id'') \<and> truthy (JObj [(''longValue'', JNum (Fin 1))])
   \<and> annotateParams [JObj [(''name'', JStr ''id''), (''value'', JObj [(''longValue'', JNum (Fin 1))])]]
       = Inr [JObj [(''name'', JStr ''id''), (''value'', JObj [(''longValue'', JNum (Fin 1))])]]
   \<and> annotateParams [JObj [(''name'', JStr ''x''), (''value'', JNum (Fin 0))]]
       = Inr [JObj [(''name'', JStr ''name''), (''value'', JObj [(''stringValue'', JStr ''x'')])],
              JObj [(''name'', JStr ''value''), (''value'', JObj [(''longValue'', JNum (Fin 0))])]]
   \<and> annotateParams [JArr [JObj [(''name'', JStr ''x''), (''value'', JNum (Fin 0))]]]
       = Inr [JArr [JObj [(''name'', JStr ''name''), (''value'', JObj [(''stringValue'', JStr ''x'')])],
                    JObj [(''name'', JStr ''value''), (''value'', JObj [(''longValue'', JNum (Fin 0))])]]]"
proof -
  have shape: "\<not> (\<exists>n v. truthy n \<and> truthy v
      \<and> ([(''name'', JStr ''x''), (''value'', JNum (Fin 0))] = [(''name'', n), (''value'', v)]
         \<or> [(''name'', JStr ''x''), (''value'', JNum (Fin 0))] = [(''value'', v), (''name'', n)]))"
    by auto
  have typed: "\<forall>(k, v) \<in> set [(''name'', JStr ''x''), (''value'', JNum (Fin 0))]. getType v \<noteq> None"
    by simp
  have tr: "truthy (JStr ''id'') \<and> truthy (JObj [(''longValue'', JNum (Fin 1))])"
    by simp
  note inst = C6_annotation_of_entries [of "JStr ''id''" "JObj [(''longValue'', JNum (Fin 1))]"
        "[(''name'', JStr ''x''), (''value'', JNum (Fin 0))]"
        "[JObj [(''name'', JStr ''x''), (''value'', JNum (Fin 0))]]" JNull "[]"]
  have a: "annotateParams [JObj [(''name'', JStr ''id''), (''value'', JObj [(''longValue'', JNum (Fin 1))])]]
       = Inr [JObj [(''name'', JStr ''id''), (''value'', JObj [(''longValue'', JNum (Fin 1))])]]"
    by (rule inst [THEN conjunct1, THEN mp, OF tr, THEN conjunct1])
  have b: "annotateParams [JObj [(''name'', JStr ''x''), (''value'', JNum (Fin 0))]]
       = Inr (map named_parameter [(''name'', JStr ''x''), (''value'', JNum (Fin 0))])"
    by (rule inst [THEN conjunct2, THEN conjunct1, THEN mp, OF shape, THEN conjunct2, THEN mp,
          OF typed])
  have c: "annotateParams [JArr [JObj [(''name'', JStr ''x''), (''value'', JNum (Fin 0))]]]
       = thenE (annotateParams [JObj [(''name'', JStr ''x''), (''value'', JNum (Fin 0))]])
           (\<lambda>r. Inr [JArr r])"
    by (rule inst [THEN conjunct2, THEN conjunct2, THEN conjunct1])
  show ?thesis
    by (simp add: a b c named_parameter_def)
qed

section \<open>Escaping a literal\<close>



section \<open>Escaping an identifier\<close>



section \<open>Resolution of the database\<close>

text \<open>
  C9, as stated, fails on the code: the claim has every call fail that supplies a
  \<^verbatim>\<open>database\<close> that is not a string, and the code takes the falsy value \<^verbatim>\<open>0\<close> as
  no database at all and uses the configuration's.
\<close>

theorem C9_falsy_database_not_refused:
  "parseDatabase \<lparr> secretArn = ''s'', resourceArn = ''r'', database = Some ''db'',
                    hydrateColumnNames = True \<rparr>
     [JObj [(''sql'', JStr ''q''), (''database'', JNum (Fin 0))]] = Inr ''db''
   \<and> typeof (JNum (Fin 0)) \<noteq> TString"
  by (simp add: parseDatabase_def arg_def)

text \<open>
  C9, amended. With \<open>d\<close> the \<^verbatim>\<open>database\<close> read from the first argument, the
  database is resolved so: a string \<open>d\<close> is the database, before the configuration's;
  a truthy \<open>d\<close> that is not a string is refused with
  \<^verbatim>\<open>'database' must be a string.\<close>; a falsy \<open>d\<close> that is not a string
  (\<^verbatim>\<open>undefined\<close>, \<^verbatim>\<open>null\<close>, \<^verbatim>\<open>false\<close>, \<^verbatim>\<open>0\<close>, \<^verbatim>\<open>NaN\<close>) counts as not
  supplied: the configuration's database is used, and the resolution fails with
  \<^verbatim>\<open>No 'database' provided.\<close> when the configuration has none (\<^verbatim>\<open>null\<close> or the empty
  string). The resolved database is the payload's. A call whose resolution fails
  always fails: with the resolution's error when the steps that run before it (the SQL,
  the hydration flag, the annotation of the parameters, the preparation of the payload)
  succeed, and with the error of the first of those steps that fails otherwise.
\<close>

theorem C9_database_resolution:
  assumes "get (arg args 0) ''database'' = Inr d"
  shows "(\<forall>s. d = JStr s \<longrightarrow> parseDatabase cfg args = Inr s)
    \<and> (typeof d \<noteq> TString \<and> truthy d \<longrightarrow>
         parseDatabase cfg args = Inl (Error (sq @ ''database'' @ sq @ '' must be a string.'')))
    \<and> (typeof d \<noteq> TString \<and> \<not> truthy d \<longrightarrow>
         parseDatabase cfg args =
           (case database cfg of
              None \<Rightarrow> Inl (Error (''No '' @ sq @ ''database'' @ sq @ '' provided.''))
            | Some s \<Rightarrow>
                if s = [] then Inl (Error (''No '' @ sq @ ''database'' @ sq @ '' provided.''))
                else Inr s))
    \<and> (\<forall>req. query_request cfg args = Inr req \<longrightarrow>
         (\<exists>db. parseDatabase cfg args = Inr db
            \<and> map_of (params req) ''database'' = Some (JStr db)))
    \<and> (\<forall>e sql h ps prepared.
         parseDatabase cfg args = Inl e \<and> parseSQL args = Inr sql
         \<and> parseHydrate cfg args = Inr h
         \<and> thenE (parseParams args) annotateParams = Inr ps
         \<and> prepareParams cfg args = Inr prepared \<longrightarrow>
         query cfg rds args = Inl e)
    \<and> (\<forall>e. parseDatabase cfg args = Inl e \<longrightarrow> (\<exists>e'. query cfg rds args = Inl e'))
    \<and> (\<forall>e. parseSQL args = Inl e \<longrightarrow> query cfg rds args = Inl e)
    \<and> (\<forall>e sql. parseSQL args = Inr sql \<and> parseHydrate cfg args = Inl e \<longrightarrow>
         query cfg rds args = Inl e)
    \<and> (\<forall>e sql h. parseSQL args = Inr sql \<and> parseHydrate cfg args = Inr h
         \<and> thenE (parseParams args) annotateParams = Inl e \<longrightarrow>
         query cfg rds args = Inl e)
    \<and> (\<forall>e sql h ps. parseSQL args = Inr sql \<and> parseHydrate cfg args = Inr h
         \<and> thenE (parseParams args) annotateParams = Inr ps
         \<and> prepareParams cfg args = Inl e \<longrightarrow>
         query cfg rds args = Inl e)"
proof -
  have c1: "\<forall>s. d = JStr s \<longrightarrow> parseDatabase cfg args = Inr s"
    using assms by (simp add: parseDatabase_def)
  have c2: "typeof d \<noteq> TString \<and> truthy d \<longrightarrow>
         parseDatabase cfg args = Inl (Error (sq @ ''database'' @ sq @ '' must be a string.''))"
    using assms by (cases d) (simp_all add: parseDatabase_def)
  have c3: "typeof d \<noteq> TString \<and> \<not> truthy d \<longrightarrow>
         parseDatabase cfg args =
           (case database cfg of
              None \<Rightarrow> Inl (Error (''No '' @ sq @ ''database'' @ sq @ '' provided.''))
            | Some s \<Rightarrow>
                if s = [] then Inl (Error (''No '' @ sq @ ''database'' @ sq @ '' provided.''))
                else Inr s)"
    using assms by (cases d) (simp_all add: parseDatabase_def split: option.splits)
  have c4: "\<forall>req. query_request cfg args = Inr req \<longrightarrow>
         (\<exists>db. parseDatabase cfg args = Inr db
            \<and> map_of (params req) ''database'' = Some (JStr db))"
  proof (intro allI impI)
    fix req
    assume r: "query_request cfg args = Inr req"
    obtain sql h parameters prepared db where
      "parseSQL args = Inr sql"
      and "parseHydrate cfg args = Inr h"
      and "thenE (parseParams args) annotateParams = Inr parameters"
      and "prepareParams cfg args = Inr prepared"
      and d: "parseDatabase cfg args = Inr db"
      and "isBatch req = (case parameters of [] \<Rightarrow> False | p # ps \<Rightarrow> isArray p)"
      and "hydrate req = h"
      and pl: "params req =
        assign
          (assign
             (assign prepared [(''database'', JStr db), (''sql'', JStr sql)])
             (if parameters \<noteq> [] then
                [(if isBatch req then ''parameterSets'' else ''parameters'', JArr parameters)]
              else []))
          (if h \<and> \<not> isBatch req then [(''includeResultMetadata'', JBool True)] else [])"
      by (rule query_request_stages [OF r])
    have "map_of (params req) ''database'' = Some (JStr db)"
      by (simp add: pl map_of_obj_set)
    then show "\<exists>db. parseDatabase cfg args = Inr db
            \<and> map_of (params req) ''database'' = Some (JStr db)"
      using d by blast
  qed
  have c5: "\<forall>e sql h ps prepared.
         parseDatabase cfg args = Inl e \<and> parseSQL args = Inr sql
         \<and> parseHydrate cfg args = Inr h
         \<and> thenE (parseParams args) annotateParams = Inr ps
         \<and> prepareParams cfg args = Inr prepared \<longrightarrow>
         query cfg rds args = Inl e"
  proof (intro allI impI, elim conjE)
    fix e sql h ps prepared
    assume "parseDatabase cfg args = Inl e" "parseSQL args = Inr sql"
      "parseHydrate cfg args = Inr h" "thenE (parseParams args) annotateParams = Inr ps"
      "prepareParams cfg args = Inr prepared"
    then have "query_request cfg args = Inl e"
      by (simp add: query_request_def Let_def)
    then show "query cfg rds args = Inl e"
      by (simp add: query_def)
  qed
  have c7: "\<forall>e. parseSQL args = Inl e \<longrightarrow> query cfg rds args = Inl e"
    by (simp add: query_def query_request_def)
  have c8: "\<forall>e sql. parseSQL args = Inr sql \<and> parseHydrate cfg args = Inl e \<longrightarrow>
         query cfg rds args = Inl e"
    by (simp add: query_def query_request_def)
  have c9: "\<forall>e sql h. parseSQL args = Inr sql \<and> parseHydrate cfg args = Inr h
         \<and> thenE (parseParams args) annotateParams = Inl e \<longrightarrow>
         query cfg rds args = Inl e"
    by (simp add: query_def query_request_def)
  have c10: "\<forall>e sql h ps. parseSQL args = Inr sql \<and> parseHydrate cfg args = Inr h
         \<and> thenE (parseParams args) annotateParams = Inr ps
         \<and> prepareParams cfg args = Inl e \<longrightarrow>
         query cfg rds args = Inl e"
    by (simp add: query_def query_request_def Let_def)
  have c6: "\<forall>e. parseDatabase cfg args = Inl e \<longrightarrow> (\<exists>e'. query cfg rds args = Inl e')"
  proof (intro allI impI)
    fix e
    assume f: "parseDatabase cfg args = Inl e"
    show "\<exists>e'. query cfg rds args = Inl e'"
    proof (cases "parseSQL args")
      case (Inl a)
      then show ?thesis using c7 by blast
    next
      case s: (Inr sql)
      show ?thesis
      proof (cases "parseHydrate cfg args")
        case (Inl a)
        then show ?thesis using c8 s by blast
      next
        case h: (Inr hy)
        show ?thesis
        proof (cases "thenE (parseParams args) annotateParams")
          case (Inl a)
          then show ?thesis using c9 s h by blast
        next
          case ps: (Inr parameters)
          show ?thesis
          proof (cases "prepareParams cfg args")
            case (Inl a)
            then show ?thesis using c10 s h ps by blast
          next
            case (Inr prepared)
            then show ?thesis using c5 f s h ps by blast
          qed
        qed
      qed
    qed
  qed
  show ?thesis by (intro conjI c1 c2 c3 c4 c5 c6 c7 c8 c9 c10)
qed

theorem C9_database_resolution_witness:
  "get (arg [JObj [(''sql'', JStr ''q''), (''database'', JNum (Fin 5))]] 0) ''database''
     = Inr (JNum (Fin 5))
   \<and> typeof (JNum (Fin 5)) \<noteq> TString \<and> truthy (JNum (Fin 5))
   \<and> parseDatabase \<lparr> secretArn = ''s'', resourceArn = ''r'', database = Some ''db'',
                      hydrateColumnNames = True \<rparr>
       [JObj [(''sql'', JStr ''q''), (''database'', JNum (Fin 5))]]
     = Inl (Error (sq @ ''database'' @ sq @ '' must be a string.''))
   \<and> query \<lparr> secretArn = ''s'', resourceArn = ''r'', database = Some ''db'',
              hydrateColumnNames = True \<rparr> (\<lambda>m p. Inl TypeError)
       [JObj [(''sql'', JStr ''q''), (''database'', JNum (Fin 5))]]
     = Inl (Error (sq @ ''database'' @ sq @ '' must be a string.''))
   \<and> get (arg [JObj [(''sql'', JStr ''q''), (''database'', JStr ''mine'')]] 0) ''database''
     = Inr (JStr ''mine'')
   \<and> parseDatabase \<lparr> secretArn = ''s'', resourceArn = ''r'', database = Some ''db'',
                      hydrateColumnNames = True \<rparr>
       [JObj [(''sql'', JStr ''q''), (''database'', JStr ''mine'')]] = Inr ''mine''
   \<and> get (arg [JStr ''q''] 0) ''database'' = Inr JUndefined
   \<and> typeof JUndefined \<noteq> TString \<and> \<not> truthy JUndefined
   \<and> parseDatabase \<lparr> secretArn = ''s'', resourceArn = ''r'', database = None,
                      hydrateColumnNames = True \<rparr> [JStr ''q'']
     = Inl (Error (''No '' @ sq @ ''database'' @ sq @ '' provided.''))
   \<and> parseDatabase \<lparr> secretArn = ''s'', resourceArn = ''r'', database = Some ''db'',
                      hydrateColumnNames = True \<rparr> [JStr ''q''] = Inr ''db''
   \<and> get (arg [JObj [(''database'', JNum (Fin 5))]] 0) ''database'' = Inr (JNum (Fin 5))
   \<and> parseDatabase \<lparr> secretArn = ''s'', resourceArn = ''r'', database = Some ''db'',
                      hydrateColumnNames = True \<rparr> [JObj [(''database'', JNum (Fin 5))]]
     = Inl (Error (sq @ ''database'' @ sq @ '' must be a string.''))
   \<and> parseSQL [JObj [(''database'', JNum (Fin 5))]]
     = Inl (Error (''No '' @ sq @ ''sql'' @ sq @ '' statement provided.''))
   \<and> query \<lparr> secretArn = ''s'', resourceArn = ''r'', database = Some ''db'',
              hydrateColumnNames = True \<rparr> (\<lambda>m p. Inl TypeError)
       [JObj [(''database'', JNum (Fin 5))]]
     = Inl (Error (''No '' @ sq @ ''sql'' @ sq @ '' statement provided.''))"
proof -
  let ?cfg = "\<lparr> secretArn = ''s'', resourceArn = ''r'', database = Some ''db'',
                hydrateColumnNames = True \<rparr>"
  let ?none = "\<lparr> secretArn = ''s'', resourceArn = ''r'', database = None,
                hydrateColumnNames = True \<rparr>"
  let ?args = "[JObj [(''sql'', JStr ''q''), (''database'', JNum (Fin 5))]]"
  let ?mine = "[JObj [(''sql'', JStr ''q''), (''database'', JStr ''mine'')]]"
  let ?nosql = "[JObj [(''database'', JNum (Fin 5))]]"
  have g: "get (arg ?args 0) ''database'' = Inr (JNum (Fin 5))"
    by (simp add: arg_def)
  have t: "typeof (JNum (Fin 5)) \<noteq> TString \<and> truthy (JNum (Fin 5))"
    by simp
  note inst = C9_database_resolution [OF g, of ?cfg "\<lambda>m p. Inl TypeError"]
  have e: "parseDatabase ?cfg ?args = Inl (Error (sq @ ''database'' @ sq @ '' must be a string.''))"
    by (rule inst [THEN conjunct2, THEN conjunct1, THEN mp, OF t])
  have stages: "parseDatabase ?cfg ?args
        = Inl (Error (sq @ ''database'' @ sq @ '' must be a string.''))
      \<and> parseSQL ?args = Inr ''q'' \<and> parseHydrate ?cfg ?args = Inr True
      \<and> thenE (parseParams ?args) annotateParams = Inr []
      \<and> prepareParams ?cfg ?args
          = Inr [(''secretArn'', JStr ''s''), (''resourceArn'', JStr ''r''), (''sql'', JStr ''q''),
                 (''database'', JNum (Fin 5))]"
    using e
    by (simp add: parseSQL_def parseHydrate_def parseParams_def prepareParams_def omit_def
        arg_def annotateParams.simps [of "[]"])
  have q: "query ?cfg (\<lambda>m p. Inl TypeError) ?args
      = Inl (Error (sq @ ''database'' @ sq @ '' must be a string.''))"
    by (rule inst [THEN conjunct2, THEN conjunct2, THEN conjunct2, THEN conjunct2,
          THEN conjunct1,
          THEN spec, THEN spec, THEN spec, THEN spec, THEN spec, THEN mp, OF stages])
  have g2: "get (arg ?mine 0) ''database'' = Inr (JStr ''mine'')"
    by (simp add: arg_def)
  have s2: "parseDatabase ?cfg ?mine = Inr ''mine''"
    by (rule C9_database_resolution [OF g2, of ?cfg "\<lambda>m p. Inl TypeError", THEN conjunct1,
          THEN spec, THEN mp, OF refl])
  have g3: "get (arg [JStr ''q''] 0) ''database'' = Inr JUndefined"
    by (simp add: arg_def)
  have t3: "typeof JUndefined \<noteq> TString \<and> \<not> truthy JUndefined"
    by simp
  have n3: "parseDatabase ?none [JStr ''q'']
      = Inl (Error (''No '' @ sq @ ''database'' @ sq @ '' provided.''))"
    using C9_database_resolution [OF g3, of ?none "\<lambda>m p. Inl TypeError", THEN conjunct2,
        THEN conjunct2, THEN conjunct1, THEN mp, OF t3]
    by simp
  have d3: "parseDatabase ?cfg [JStr ''q''] = Inr ''db''"
    using C9_database_resolution [OF g3, of ?cfg "\<lambda>m p. Inl TypeError", THEN conjunct2,
        THEN conjunct2, THEN conjunct1, THEN mp, OF t3]
    by simp
  have g4: "get (arg ?nosql 0) ''database'' = Inr (JNum (Fin 5))"
    by (simp add: arg_def)
  note inst4 = C9_database_resolution [OF g4, of ?cfg "\<lambda>m p. Inl TypeError"]
  have e4: "parseDatabase ?cfg ?nosql
      = Inl (Error (sq @ ''database'' @ sq @ '' must be a string.''))"
    by (rule inst4 [THEN conjunct2, THEN conjunct1, THEN mp, OF t])
  have p4: "parseSQL ?nosql = Inl (Error (''No '' @ sq @ ''sql'' @ sq @ '' statement provided.''))"
    by (simp add: parseSQL_def arg_def)
  have q4: "query ?cfg (\<lambda>m p. Inl TypeError) ?nosql
      = Inl (Error (''No '' @ sq @ ''sql'' @ sq @ '' statement provided.''))"
    by (rule inst4 [THEN conjunct2, THEN conjunct2, THEN conjunct2, THEN conjunct2,
          THEN conjunct2, THEN conjunct2, THEN conjunct1, THEN spec, THEN mp, OF p4])
  show ?thesis
    by (intro conjI g t [THEN conjunct1] t [THEN conjunct2] e q g2 s2 g3
        t3 [THEN conjunct1] t3 [THEN conjunct2] n3 d3 g4 e4 p4 q4)
qed

section \<open>Hydration of an empty result\<close>

text \<open>
  C10. When the records of the response are the empty list, hydration throws: the
  field map is made from the first record, and there is none. This holds with and
  without column names, and whatever the rest of the response is.
\<close>

theorem C10_empty_records_throw:
  "formatRecords [] columns = Inl TypeError
   \<and> formatResults (resp\<lparr> records := Some [] \<rparr>) True includeMeta = Inl TypeError
   \<and> formatResults (resp\<lparr> records := Some [] \<rparr>) False includeMeta = Inl TypeError"
  by (simp add: formatResults_def formatRecords_def)

end
